theory Spec2Isabelle
  imports Complex_Main "HOL-Library.Sublist" "HOL-Library.Log_Nat"
begin

section \<open>The answer evaluator of the interview coach\<close>

text \<open>
  This theory embeds \<^verbatim>\<open>evaluate_answer\<close> of \<^verbatim>\<open>cyber_interview_bot.py\<close> (lines 56 to 150)
  and the Python primitives it calls. Modelling decisions:
  \<^item> A Python \<^verbatim>\<open>str\<close> is a \<^typ>\<open>string\<close>. The character classes used by \<^verbatim>\<open>str.lower\<close>,
    \<^verbatim>\<open>str.split\<close> and the regular expression are the ASCII ones, so the primitives are exact
    on ASCII text; the one non-ASCII character of the source, the dash in two strength
    messages, is written as its three UTF-8 bytes.
  \<^item> The question is a \<^verbatim>\<open>dict\<close> read with \<^verbatim>\<open>.get\<close>; it is a record whose optional
    keys are \<^typ>\<open>'a option\<close> fields.
  \<^item> A Python float is a binary64 number; it is modelled by the rational number that it
    denotes. Every float operation of the source (a division of integers, a
    multiplication, a decimal literal) is the exact operation followed by the rounding
    \<open>fl\<close> to the nearest number with a significand of 53 bits, a tie going to the even
    significand. The exponent is not bounded: overflow and subnormal numbers are left
    out, and neither can occur here, where every float is 0 or lies between
    \<open>1 / len(keywords)\<close> and 8.
  \<^item> The division is the only operation of the function that can raise on a well-typed
    question; it returns an error or a value, and so does everything built on it.
\<close>

subsection \<open>Python primitives\<close>

datatype error = ZeroDivisionError

definition is_upper :: "char \<Rightarrow> bool" where
  "is_upper c = (65 \<le> (of_char c :: nat) \<and> (of_char c :: nat) \<le> 90)"

definition is_lower :: "char \<Rightarrow> bool" where
  "is_lower c = (97 \<le> (of_char c :: nat) \<and> (of_char c :: nat) \<le> 122)"

definition is_digit :: "char \<Rightarrow> bool" where
  "is_digit c = (48 \<le> (of_char c :: nat) \<and> (of_char c :: nat) \<le> 57)"

text \<open>\<^verbatim>\<open>str.isspace\<close> and the class \<^verbatim>\<open>\s\<close>: tab to carriage return, the four separators
  0x1C to 0x1F, and the blank.\<close>

definition is_space :: "char \<Rightarrow> bool" where
  "is_space c = ((9 \<le> (of_char c :: nat) \<and> (of_char c :: nat) \<le> 13)
     \<or> (28 \<le> (of_char c :: nat) \<and> (of_char c :: nat) \<le> 32))"

text \<open>The class \<^verbatim>\<open>\w\<close>: letters, digits and the underscore.\<close>

definition is_word :: "char \<Rightarrow> bool" where
  "is_word c = (is_upper c \<or> is_lower c \<or> is_digit c \<or> c = CHR ''_'')"

definition lower_char :: "char \<Rightarrow> char" where
  "lower_char c = (if is_upper c then char_of ((of_char c :: nat) + 32) else c)"

text \<open>\<^verbatim>\<open>s.lower()\<close>\<close>

definition lower :: "string \<Rightarrow> string" where
  "lower s = map lower_char s"

text \<open>\<^verbatim>\<open>sub in s\<close> on strings: \<^verbatim>\<open>sub\<close> occurs in \<^verbatim>\<open>s\<close> as a contiguous block.\<close>

fun py_in :: "string \<Rightarrow> string \<Rightarrow> bool" where
  "py_in sub [] = (sub = [])"
| "py_in sub (c # cs) = (prefix sub (c # cs) \<or> py_in sub cs)"

text \<open>\<^verbatim>\<open>s.split()\<close>: the maximal runs of non-whitespace characters, in order. The first
  argument is the run read so far.\<close>

fun split_from :: "string \<Rightarrow> string \<Rightarrow> string list" where
  "split_from cur [] = (if cur = [] then [] else [cur])"
| "split_from cur (c # cs) =
     (if is_space c then (if cur = [] then split_from [] cs else cur # split_from [] cs)
      else split_from (cur @ [c]) cs)"

definition py_split :: "string \<Rightarrow> string list" where
  "py_split s = split_from [] s"

text \<open>\<^verbatim>\<open>sep.join(parts)\<close>\<close>

fun py_join :: "string \<Rightarrow> string list \<Rightarrow> string" where
  "py_join sep [] = []"
| "py_join sep [x] = x"
| "py_join sep (x # y # ys) = x @ sep @ py_join sep (y # ys)"

text \<open>The decimal text of an integer, as an f-string prints it.\<close>

definition digit_char :: "nat \<Rightarrow> char" where
  "digit_char d = ''0123456789'' ! d"

fun str_nat :: "nat \<Rightarrow> string" where
  "str_nat n = (if n < 10 then [digit_char n] else str_nat (n div 10) @ [digit_char (n mod 10)])"

definition str_int :: "int \<Rightarrow> string" where
  "str_int i = (if i < 0 then CHR ''-'' # str_nat (nat (- i)) else str_nat (nat i))"

text \<open>\<^verbatim>\<open>round(x)\<close> with one argument: the nearest integer, a tie going to the even one.\<close>

definition py_round :: "rat \<Rightarrow> int" where
  "py_round x =
     (let f = \<lfloor>x\<rfloor>; d = x - of_int f
      in if d < 1 / 2 then f else if 1 / 2 < d then f + 1 else if even f then f else f + 1)"

text \<open>The binary exponent of a positive rational \<open>p / q\<close>: the integer \<open>e\<close> with
  \<open>2 ^ e \<le> p / q < 2 ^ (e + 1)\<close>. The difference of the bit lengths of \<open>p\<close> and \<open>q\<close> is
  \<open>e\<close> or \<open>e + 1\<close>.\<close>

definition binade :: "rat \<Rightarrow> int" where
  "binade x =
     (case quotient_of x of (p, q) \<Rightarrow>
        (let e = int (floorlog 2 (nat p)) - int (floorlog 2 (nat q))
         in if 2 powi e \<le> x then e else e - 1))"

text \<open>Rounding to binary64: the nearest multiple of the unit in the last place of the
  binade of \<open>x\<close>, which is \<open>2 ^ (e - 52)\<close>, a tie going to the even multiple.\<close>

definition fl :: "rat \<Rightarrow> rat" where
  "fl x =
     (if x = 0 then 0
      else (let u = 2 powi (binade \<bar>x\<bar> - 52)
            in sgn x * of_int (py_round (\<bar>x\<bar> / u)) * u))"

text \<open>\<^verbatim>\<open>a / b\<close> on integers: it raises when the divisor is zero, and gives the float
  nearest to the quotient otherwise.\<close>

definition py_truediv :: "int \<Rightarrow> int \<Rightarrow> error + rat" where
  "py_truediv a b = (if b = 0 then Inl ZeroDivisionError else Inr (fl (of_int a / of_int b)))"

text \<open>\<^verbatim>\<open>x * y\<close> on floats; an integer factor is converted first, exactly for the factors
  7 and 8 of the source.\<close>

definition float_mul :: "rat \<Rightarrow> rat \<Rightarrow> rat" where
  "float_mul x y = fl (x * y)"

text \<open>\<^verbatim>\<open>d.get(key, default)\<close> on an optional key.\<close>

definition dict_get :: "'a option \<Rightarrow> 'a \<Rightarrow> 'a" where
  "dict_get v dflt = (case v of None \<Rightarrow> dflt | Some x \<Rightarrow> x)"

subsection \<open>The measurable-result pattern\<close>

text \<open>
  Line 116 searches the lowered answer for
  \<^verbatim>\<open>\b(\d+%|\d+\s+(days|weeks|months|years)|reduced|improved|decreased|increased)\b\<close>.
  \<^verbatim>\<open>\b\<close> holds at position \<open>i\<close> when exactly one of the characters before and after
  \<open>i\<close> is a word character; outside the string there is none.
\<close>

definition word_boundary :: "string \<Rightarrow> nat \<Rightarrow> bool" where
  "word_boundary s i =
     ((0 < i \<and> i \<le> length s \<and> is_word (s ! (i - 1))) \<noteq> (i < length s \<and> is_word (s ! i)))"

text \<open>The number of leading characters of a class.\<close>

definition run_length :: "(char \<Rightarrow> bool) \<Rightarrow> string \<Rightarrow> nat" where
  "run_length P t = length (takeWhile P t)"

text \<open>The lengths of the prefixes of \<open>t\<close> that the group of the pattern can match:
  \<^verbatim>\<open>\d+\<close> and \<^verbatim>\<open>\s+\<close> may stop after any positive number of characters of their class.\<close>

definition percent_lens :: "string \<Rightarrow> nat list" where
  "percent_lens t =
     [k + 1. k \<leftarrow> [1..<Suc (run_length is_digit t)], prefix ''%'' (drop k t)]"

definition duration_lens :: "string \<Rightarrow> nat list" where
  "duration_lens t =
     [k + j + length u.
        k \<leftarrow> [1..<Suc (run_length is_digit t)],
        j \<leftarrow> [1..<Suc (run_length is_space (drop k t))],
        u \<leftarrow> [''days'', ''weeks'', ''months'', ''years''],
        prefix u (drop (k + j) t)]"

definition verb_lens :: "string \<Rightarrow> nat list" where
  "verb_lens t =
     [length u. u \<leftarrow> [''reduced'', ''improved'', ''decreased'', ''increased''], prefix u t]"

definition group_lens :: "string \<Rightarrow> nat list" where
  "group_lens t = percent_lens t @ duration_lens t @ verb_lens t"

definition match_at :: "string \<Rightarrow> nat \<Rightarrow> bool" where
  "match_at s i =
     (word_boundary s i \<and> list_ex (\<lambda>k. word_boundary s (i + k)) (group_lens (drop i s)))"

text \<open>\<^verbatim>\<open>re.search\<close> of the pattern, read as a truth value.\<close>

definition metric_search :: "string \<Rightarrow> bool" where
  "metric_search s = list_ex (match_at s) [0..<Suc (length s)]"

subsection \<open>Questions and results\<close>

record question =
  q_id :: "string option"
  q_question :: "string option"
  q_type :: "string option"
  q_difficulty :: "string option"
  q_keywords :: "string list option"
  q_explanation :: "string option"
  q_references :: "string list option"

text \<open>The tuple \<^verbatim>\<open>(score, brief_reason, strengths, weaknesses, tips)\<close> that is returned.\<close>

record evaluation =
  score :: int
  reason :: string
  strengths :: "string list"
  weaknesses :: "string list"
  tips :: "string list"

subsection \<open>The three scoring rules\<close>

text \<open>The loops of lines 75 to 77, 111 to 113 and 130 to 132: one more for each entry
  that occurs in the lowered answer. The technical and the scenario loop lower the
  keyword first.\<close>

fun count_hits :: "string list \<Rightarrow> string \<Rightarrow> nat \<Rightarrow> nat" where
  "count_hits [] ans_lower n = n"
| "count_hits (kw # kws) ans_lower n =
     count_hits kws ans_lower (if py_in kw ans_lower then n + 1 else n)"

definition star_markers :: "string list" where
  "star_markers = [''situation'', ''task'', ''action'', ''result'', ''challenge'', ''led'',
     ''implemented'', ''outcome'', ''impact'', ''responsib'']"

definition dash :: string where
  "dash = [CHR 0xE2, CHR 0x80, CHR 0x94]"

type_synonym branch_result = "int \<times> string \<times> string list \<times> string list \<times> string list"

type_synonym keyword_result = "int \<times> string list \<times> string list \<times> string list \<times> string list"

text \<open>Lines 72 to 88, the first half of the technical rule: the score from the keyword
  coverage, or from the length when there are no keywords. The result is
  \<open>(score, reasoning_parts, strengths, weaknesses, tips)\<close>.\<close>

definition keyword_stage :: "string list \<Rightarrow> string \<Rightarrow> error + keyword_result" where
  "keyword_stage keywords answer_text =
     (if keywords \<noteq> [] then
        (let ans_lower = lower answer_text;
             matched = count_hits (map lower keywords) ans_lower 0
         in case py_truediv (int matched) (int (length keywords)) of
              Inl e \<Rightarrow> Inl e
            | Inr coverage \<Rightarrow>
                Inr (py_round (float_mul coverage 8),
                     [''Keyword coverage: '' @ str_int (int matched) @ ''/''
                        @ str_int (int (length keywords))],
                     (if fl (7 / 10) < coverage then [''Covered most key concepts''] else []),
                     (if fl (7 / 10) < coverage then [] else [''Missed some important concepts'']),
                     (if fl (7 / 10) < coverage then []
                      else [''Make sure to mention the core terms and explain how they fit together. Consider a short definition followed by an example.''])))
      else Inr (min 6 (int (length (py_split answer_text)) div 20), [], [], [], []))"

text \<open>Lines 91 to 105, the second half: the length adjustment, the clamp, the reasoning
  and the tip that quotes the explanation. The result is
  \<open>(score, reasoning, strengths, weaknesses, tips)\<close>.\<close>

definition length_stage :: "string \<Rightarrow> string \<Rightarrow> keyword_result \<Rightarrow> branch_result" where
  "length_stage explanation answer_text kr =
     (case kr of (score1, reasoning_parts, strengths1, weaknesses1, tips1) \<Rightarrow>
        (let word_count = length (py_split answer_text);
             score2 = (if 120 < word_count then min 10 (score1 + 1)
                       else if word_count < 30 then max 0 (score1 - 1) else score1);
             strengths2 = (if 120 < word_count then strengths1 @ [''Provided detailed answer'']
                           else strengths1);
             weaknesses2 = (if 120 < word_count then weaknesses1
                            else if word_count < 30
                            then weaknesses1 @ [''Answer was short; expand with steps or examples'']
                            else weaknesses1);
             score3 = max 0 (min 10 score2);
             reasoning = (if reasoning_parts \<noteq> [] then py_join ''; '' reasoning_parts
                          else ''Evaluated technical response by heuristics.'');
             tips2 = (if explanation \<noteq> [] \<and> score3 < 6
                      then tips1 @ [''Review the key concept: '' @ explanation] else tips1)
         in (score3, reasoning, strengths2, weaknesses2, tips2)))"

text \<open>Lines 71 to 105.\<close>

definition technical_rule :: "string list \<Rightarrow> string \<Rightarrow> string \<Rightarrow> error + branch_result" where
  "technical_rule keywords explanation answer_text =
     (case keyword_stage keywords answer_text of
        Inl e \<Rightarrow> Inl e
      | Inr kr \<Rightarrow> Inr (length_stage explanation answer_text kr))"

text \<open>Lines 107 to 124. The result is \<open>(score, reasoning, strengths, weaknesses, tips)\<close>,
  as for the scenario rule below.\<close>

definition behavioral_rule :: "string \<Rightarrow> error + branch_result" where
  "behavioral_rule answer_text =
     (let ans_lower = lower answer_text;
          star_hits = count_hits star_markers ans_lower 0;
          score1 = min 10 (int star_hits * 2);
          metric = metric_search ans_lower;
          score2 = (if metric then min 10 (score1 + 2) else score1);
          strengths1 = (if metric then [''Included measurable results or metrics''] else []);
          strengths2 = (if 3 \<le> star_hits
                        then strengths1 @ [''Clear structure '' @ dash @ '' covers multiple STAR elements'']
                        else strengths1);
          weaknesses1 = (if 3 \<le> star_hits then []
                         else [''Missing parts of the STAR structure (Situation, Task, Action, Result)'']);
          tips1 = (if 3 \<le> star_hits then []
                   else [''Use the STAR method: briefly state the Situation and Task, describe Actions you took, and end with the Result (preferably quantifiable).''])
      in Inr (score2, ''Detected STAR-like keywords: '' @ str_int (int star_hits),
              strengths2, weaknesses1, tips1))"

text \<open>Lines 125 to 141.\<close>

definition scenario_rule :: "string list \<Rightarrow> string \<Rightarrow> error + branch_result" where
  "scenario_rule keywords answer_text =
     (let ans_lower = lower answer_text;
          matched = count_hits (map lower keywords) ans_lower 0
      in case (if keywords \<noteq> [] then py_truediv (int matched) (int (length keywords))
               else Inr 0) of
           Inl e \<Rightarrow> Inl e
         | Inr coverage \<Rightarrow>
             (let score1 = py_round (float_mul coverage 7);
                  stepwise = (py_in ''step'' ans_lower \<or> py_in ''first'' ans_lower
                              \<or> py_in ''then'' ans_lower);
                  score2 = (if stepwise then score1 + 2 else score1);
                  strengths1 = (if stepwise then [''Provided a stepwise approach''] else []);
                  weaknesses1 = (if coverage < fl (1 / 2)
                                 then [''Missed some technical or process-oriented items'']
                                 else []);
                  tips1 = (if coverage < fl (1 / 2)
                           then [''Outline a clear step-by-step plan and mention key controls or mitigations.'']
                           else []);
                  reasoning = ''Scenario heuristic: '' @ str_int (int matched) @ ''/''
                     @ str_int (if keywords \<noteq> [] then int (length keywords) else 0)
                     @ '' keywords matched''
              in Inr (score2, reasoning, strengths1, weaknesses1, tips1)))"

subsection \<open>The evaluator\<close>

text \<open>Lines 61 to 63 and the \<^verbatim>\<open>if\<close>/\<^verbatim>\<open>elif\<close>/\<^verbatim>\<open>else\<close> of lines 71, 107 and 125: the
  rule is chosen by the type, which is \<^verbatim>\<open>technical\<close> when the key is absent.\<close>

definition type_rule :: "question \<Rightarrow> string \<Rightarrow> error + branch_result" where
  "type_rule question answer_text =
     (let qtype = dict_get (q_type question) ''technical'';
          keywords = dict_get (q_keywords question) [];
          explanation = dict_get (q_explanation question) []
      in if qtype = ''technical'' then technical_rule keywords explanation answer_text
         else if qtype = ''behavioral'' then behavioral_rule answer_text
         else scenario_rule keywords answer_text)"

text \<open>Lines 56 to 150: the guard on the empty answer (lines 58 and 59), the rule of the
  type, the closing strength (lines 144 to 147) and the reason (line 149).\<close>

definition evaluate_answer :: "question \<Rightarrow> string \<Rightarrow> error + evaluation" where
  "evaluate_answer question answer_text =
     (if answer_text = [] then
        Inr \<lparr>score = 0, reason = ''No answer provided.'', strengths = [],
             weaknesses = [''No response.''],
             tips = [''Try to answer the question; use STAR for behavioral answers or outline steps for technical ones.'']\<rparr>
      else
        (case type_rule question answer_text of
           Inl e \<Rightarrow> Inl e
         | Inr (score1, reasoning, strengths1, weaknesses1, tips1) \<Rightarrow>
             Inr \<lparr>score = score1,
                  reason = ''Score: '' @ str_int score1 @ ''/10. '' @ reasoning,
                  strengths =
                    (if 8 \<le> score1
                     then strengths1 @ [''Good answer '' @ dash @ '' clear and thorough'']
                     else if 5 \<le> score1
                     then strengths1 @ [''Decent answer; with room to add more specifics or examples'']
                     else strengths1),
                  weaknesses = weaknesses1, tips = tips1\<rparr>))"

subsection \<open>Sample questions\<close>

text \<open>The question of the end-to-end scenario of the specification, a behavioural
  question, and a scenario question; keys that the evaluator does not read are absent.\<close>

definition cia_question :: question where
  "cia_question =
     \<lparr>q_id = None, q_question = None, q_type = Some ''technical'', q_difficulty = None,
      q_keywords = Some [''confidentiality'', ''integrity'', ''availability''],
      q_explanation = Some ''CIA triad...'', q_references = None\<rparr>"

definition behavioral_question :: question where
  "behavioral_question =
     \<lparr>q_id = None, q_question = None, q_type = Some ''behavioral'', q_difficulty = None,
      q_keywords = None, q_explanation = None, q_references = None\<rparr>"

definition scenario_question :: question where
  "scenario_question =
     \<lparr>q_id = None, q_question = None, q_type = Some ''scenario'', q_difficulty = None,
      q_keywords = Some [''isolate'', ''backup''], q_explanation = None, q_references = None\<rparr>"

definition bare_question :: question where
  "bare_question =
     \<lparr>q_id = None, q_question = None, q_type = Some ''essay'', q_difficulty = None,
      q_keywords = None, q_explanation = None, q_references = None\<rparr>"

section \<open>Properties\<close>

subsection \<open>Auxiliary facts\<close>

lemma count_hits_upper: "count_hits kws a n \<le> n + length kws"
proof (induction kws arbitrary: n)
  case Nil
  show ?case by simp
next
  case (Cons kw kws)
  have "count_hits kws a (if py_in kw a then n + 1 else n)
          \<le> (if py_in kw a then n + 1 else n) + length kws" by (rule Cons.IH)
  also have "\<dots> \<le> n + length (kw # kws)" by simp
  finally show ?case by simp
qed

lemma py_round_of_int: "py_round (of_int k) = k"
  by (simp add: py_round_def)

lemma py_round_floor: "py_round x = \<lfloor>x\<rfloor> \<or> py_round x = \<lfloor>x\<rfloor> + 1"
  by (simp add: py_round_def Let_def)

lemma py_round_mono:
  assumes "x \<le> y"
  shows "py_round x \<le> py_round y"
proof (cases "\<lfloor>x\<rfloor> = \<lfloor>y\<rfloor>")
  case True
  with assms show ?thesis by (simp add: py_round_def Let_def)
next
  case False
  moreover have "\<lfloor>x\<rfloor> \<le> \<lfloor>y\<rfloor>" using assms by (rule floor_mono)
  ultimately have "\<lfloor>x\<rfloor> + 1 \<le> \<lfloor>y\<rfloor>" by simp
  moreover have "py_round x \<le> \<lfloor>x\<rfloor> + 1" using py_round_floor [of x] by auto
  moreover have "\<lfloor>y\<rfloor> \<le> py_round y" using py_round_floor [of y] by auto
  ultimately show ?thesis by simp
qed

lemma py_round_range:
  assumes "of_int lo \<le> x" and "x \<le> of_int hi"
  shows "lo \<le> py_round x \<and> py_round x \<le> hi"
  using py_round_mono [OF assms(1)] py_round_mono [OF assms(2)] by (simp add: py_round_of_int)

text \<open>The rounding \<open>fl\<close> keeps the binade, is monotone and fixes 0, 1 and 7.\<close>

lemma binade_bounds:
  assumes "0 < x"
  shows "2 powi binade x \<le> x" and "x < 2 powi (binade x + 1)"
proof -
  obtain p q where pq: "quotient_of x = (p, q)" by (cases "quotient_of x")
  then have q: "0 < q" by (rule quotient_of_denom_pos)
  have x: "x = of_int p / of_int q" using pq by (rule quotient_of_div)
  have p: "0 < p" using assms q x by (simp add: zero_less_divide_iff)
  define bp where "bp = floorlog 2 (nat p)"
  define bq where "bq = floorlog 2 (nat q)"
  define e where "e = int bp - int bq"
  have bp: "2 ^ (bp - 1) \<le> nat p" "nat p < 2 ^ bp"
    using floorlog_bounds [of "nat p" 2] p by (simp_all add: bp_def)
  have bq: "2 ^ (bq - 1) \<le> nat q" "nat q < 2 ^ bq"
    using floorlog_bounds [of "nat q" 2] q by (simp_all add: bq_def)
  have bp1: "1 \<le> bp" using p by (simp add: bp_def floorlog_def)
  have bq1: "1 \<le> bq" using q by (simp add: bq_def floorlog_def)
  have pr: "(of_int p :: rat) = of_nat (nat p)" using p by simp
  have qr: "(of_int q :: rat) = of_nat (nat q)" using q by simp
  have p_lo: "(2::rat) ^ (bp - 1) \<le> of_int p"
    unfolding pr using bp(1) by (metis of_nat_le_iff of_nat_numeral of_nat_power)
  have p_hi: "of_int p < (2::rat) ^ bp"
    unfolding pr using bp(2) by (metis of_nat_less_iff of_nat_numeral of_nat_power)
  have q_lo: "(2::rat) ^ (bq - 1) \<le> of_int q"
    unfolding qr using bq(1) by (metis of_nat_le_iff of_nat_numeral of_nat_power)
  have q_hi: "of_int q < (2::rat) ^ bq"
    unfolding qr using bq(2) by (metis of_nat_less_iff of_nat_numeral of_nat_power)
  have qpos: "(0::rat) < of_int q" using q by simp
  have hi: "x < 2 powi (e + 1)"
  proof -
    have "x < 2 ^ bp / of_int q" unfolding x using p_hi qpos by (simp add: divide_strict_right_mono)
    also have "\<dots> \<le> 2 ^ bp / 2 ^ (bq - 1)" using q_lo by (simp add: frac_le)
    also have "\<dots> = 2 powi (int bp - int (bq - 1))" by (simp add: power_int_diff)
    also have "int bp - int (bq - 1) = e + 1" using bq1 by (simp add: e_def)
    finally show ?thesis .
  qed
  have lo: "2 powi (e - 1) \<le> x"
  proof -
    have "e - 1 = int (bp - 1) - int bq" using bp1 by (simp add: e_def)
    then have "(2::rat) powi (e - 1) = 2 powi (int (bp - 1) - int bq)" by simp
    also have "\<dots> = 2 ^ (bp - 1) / 2 ^ bq" by (simp add: power_int_diff)
    also have "\<dots> \<le> of_int p / 2 ^ bq" using p_lo by (simp add: divide_right_mono)
    also have "\<dots> \<le> of_int p / of_int q" using q_hi qpos p by (simp add: frac_le)
    finally show ?thesis by (simp add: x)
  qed
  have b: "binade x = (if 2 powi e \<le> x then e else e - 1)"
    by (simp add: binade_def pq e_def bp_def bq_def Let_def)
  show "2 powi binade x \<le> x" using lo by (simp add: b)
  show "x < 2 powi (binade x + 1)" using hi by (auto simp add: b not_le)
qed


lemma binade_le:
  assumes "0 < x" and "x \<le> y"
  shows "binade x \<le> binade y"
proof (rule ccontr)
  assume "\<not> binade x \<le> binade y"
  then have "binade y + 1 \<le> binade x" by simp
  then have "(2::rat) powi (binade y + 1) \<le> 2 powi binade x"
    by (rule power_int_increasing) simp
  also have "\<dots> \<le> x" using assms(1) by (rule binade_bounds)
  also have "x \<le> y" by fact
  finally have "(2::rat) powi (binade y + 1) \<le> y" .
  moreover have "y < 2 powi (binade y + 1)" using assms by (intro binade_bounds) simp
  ultimately show False by simp
qed

lemma fl_pos:
  assumes "0 < x"
  shows "fl x = of_int (py_round (x / 2 powi (binade x - 52))) * 2 powi (binade x - 52)"
  using assms by (simp add: fl_def Let_def)

lemma fl_bounds:
  assumes "0 < x"
  shows "2 powi binade x \<le> fl x" and "fl x \<le> 2 powi (binade x + 1)"
proof -
  define u :: rat where "u = 2 powi (binade x - 52)"
  have u: "0 < u" by (simp add: u_def)
  have flx: "fl x = of_int (py_round (x / u)) * u" by (simp only: fl_pos [OF assms] u_def)
  have lo: "of_int (2 ^ 52) * u = 2 powi binade x"
    by (simp add: u_def power_int_diff)
  have hi: "of_int (2 ^ 53) * u = 2 powi (binade x + 1)"
    by (simp add: u_def power_int_diff power_int_add)
  have "of_int (2 ^ 52) * u \<le> x" unfolding lo using assms by (rule binade_bounds)
  then have "of_int (2 ^ 52) \<le> x / u" using u by (simp add: pos_le_divide_eq)
  then have "py_round (of_int (2 ^ 52)) \<le> py_round (x / u)" by (rule py_round_mono)
  then have "(2 ^ 52 :: int) \<le> py_round (x / u)" by (simp only: py_round_of_int)
  then have "(of_int (2 ^ 52) :: rat) \<le> of_int (py_round (x / u))" by (simp only: of_int_le_iff)
  then have "of_int (2 ^ 52) * u \<le> of_int (py_round (x / u)) * u"
    using u by (simp only: mult_le_cancel_right_pos)
  then have "of_int (2 ^ 52) * u \<le> fl x" by (simp only: flx)
  then show "2 powi binade x \<le> fl x" by (simp only: lo)
  have "x \<le> of_int (2 ^ 53) * u" unfolding hi using binade_bounds(2) [OF assms] by simp
  then have "x / u \<le> of_int (2 ^ 53)" using u by (simp add: pos_divide_le_eq)
  then have "py_round (x / u) \<le> py_round (of_int (2 ^ 53))" by (rule py_round_mono)
  then have "py_round (x / u) \<le> (2 ^ 53 :: int)" by (simp only: py_round_of_int)
  then have "(of_int (py_round (x / u)) :: rat) \<le> of_int (2 ^ 53)" by (simp only: of_int_le_iff)
  then have "of_int (py_round (x / u)) * u \<le> of_int (2 ^ 53) * u"
    using u by (simp only: mult_le_cancel_right_pos)
  then have "fl x \<le> of_int (2 ^ 53) * u" by (simp only: flx)
  then show "fl x \<le> 2 powi (binade x + 1)" by (simp only: hi)
qed

lemma fl_zero: "fl 0 = 0"
  by (simp add: fl_def)

lemma fl_positive:
  assumes "0 < x"
  shows "0 < fl x"
proof -
  have "(0::rat) < 2 powi binade x" by simp
  also have "\<dots> \<le> fl x" using assms by (rule fl_bounds)
  finally show ?thesis .
qed

lemma fl_mono_pos:
  assumes "0 < x" and "x \<le> y"
  shows "fl x \<le> fl y"
proof (cases "binade x = binade y")
  case True
  define u :: rat where "u = 2 powi (binade y - 52)"
  have u: "0 < u" by (simp add: u_def)
  have y: "0 < y" using assms by simp
  have "x / u \<le> y / u" using assms(2) u by (simp add: divide_right_mono)
  then have "py_round (x / u) \<le> py_round (y / u)" by (rule py_round_mono)
  then have "(of_int (py_round (x / u)) :: rat) \<le> of_int (py_round (y / u))"
    by (simp only: of_int_le_iff)
  then have "of_int (py_round (x / u)) * u \<le> of_int (py_round (y / u)) * u"
    using u by (simp only: mult_le_cancel_right_pos)
  moreover have "fl x = of_int (py_round (x / u)) * u"
    by (simp only: fl_pos [OF assms(1)] True u_def)
  moreover have "fl y = of_int (py_round (y / u)) * u"
    by (simp only: fl_pos [OF y] u_def)
  ultimately show ?thesis by simp
next
  case False
  have y: "0 < y" using assms by simp
  have "binade x \<le> binade y" using assms by (rule binade_le)
  with False have "binade x + 1 \<le> binade y" by simp
  then have "(2::rat) powi (binade x + 1) \<le> 2 powi binade y"
    by (rule power_int_increasing) simp
  moreover have "fl x \<le> 2 powi (binade x + 1)" using assms(1) by (rule fl_bounds)
  moreover have "2 powi binade y \<le> fl y" using y by (rule fl_bounds)
  ultimately show ?thesis by simp
qed

lemma fl_mono:
  assumes "0 \<le> x" and "x \<le> y"
  shows "fl x \<le> fl y"
proof (cases "x = 0")
  case True
  show ?thesis
  proof (cases "y = 0")
    case True
    with \<open>x = 0\<close> show ?thesis by simp
  next
    case False
    with assms True have "0 < y" by simp
    then have "0 < fl y" by (rule fl_positive)
    with True show ?thesis by (simp add: fl_zero)
  qed
next
  case False
  with assms(1) have "0 < x" by simp
  then show ?thesis using assms(2) by (rule fl_mono_pos)
qed

lemma fl_one: "fl 1 = 1"
  by code_simp

lemma fl_seven: "fl 7 = 7"
  by code_simp

lemma fl_unit_interval:
  assumes "0 \<le> x" and "x \<le> 1"
  shows "0 \<le> fl x" and "fl x \<le> 1"
  using fl_mono [of 0 x] fl_mono [of x 1] assms by (simp_all add: fl_zero fl_one)

lemma coverage_range:
  assumes "kws \<noteq> []"
  shows "\<exists>c. py_truediv (int (count_hits kws a 0)) (int (length kws)) = Inr c \<and> 0 \<le> c \<and> c \<le> 1"
proof -
  let ?x = "of_int (int (count_hits kws a 0)) / of_int (int (length kws)) :: rat"
  have len: "0 < length kws" using assms by simp
  moreover have "count_hits kws a 0 \<le> length kws" using count_hits_upper [of kws a 0] by simp
  ultimately have "0 \<le> ?x" and "?x \<le> 1" by simp_all
  then have "0 \<le> fl ?x" and "fl ?x \<le> 1" by (rule fl_unit_interval)+
  moreover have "py_truediv (int (count_hits kws a 0)) (int (length kws)) = Inr (fl ?x)"
    using len by (simp add: py_truediv_def)
  ultimately show ?thesis by simp
qed

lemma scaled_range:
  assumes "0 \<le> c" and "c \<le> 1"
  shows "of_int 0 \<le> float_mul c 7" and "float_mul c 7 \<le> of_int 7"
proof -
  have "0 \<le> c * 7" and "c * 7 \<le> 7" using assms by simp_all
  then have "fl 0 \<le> fl (c * 7)" and "fl (c * 7) \<le> fl 7" by (simp_all add: fl_mono)
  then show "of_int 0 \<le> float_mul c 7" and "float_mul c 7 \<le> of_int 7"
    by (simp_all add: float_mul_def fl_zero fl_seven)
qed

lemma scaled_round_mono:
  assumes "0 \<le> x1" and "x1 \<le> x2"
  shows "py_round (float_mul (fl x1) 8) \<le> py_round (float_mul (fl x2) 8)"
proof -
  have c: "fl x1 \<le> fl x2" using assms by (rule fl_mono)
  have "fl 0 \<le> fl x1" using assms(1) by (intro fl_mono) simp_all
  then have "0 \<le> fl x1 * 8" by (simp add: fl_zero)
  moreover have "fl x1 * 8 \<le> fl x2 * 8" using c by simp
  ultimately have "float_mul (fl x1) 8 \<le> float_mul (fl x2) 8"
    unfolding float_mul_def by (rule fl_mono)
  then show ?thesis by (rule py_round_mono)
qed

lemma keyword_stage_total: "\<exists>kr. keyword_stage kws a = Inr kr"
proof (cases "kws = []")
  case True
  then show ?thesis by (simp add: keyword_stage_def)
next
  case False
  then have "int (length kws) \<noteq> 0" by simp
  then show ?thesis using False by (simp add: keyword_stage_def Let_def py_truediv_def)
qed

lemma length_stage_range:
  "0 \<le> fst (length_stage e a kr) \<and> fst (length_stage e a kr) \<le> 10"
  by (cases kr) (simp add: length_stage_def Let_def)

lemma technical_rule_range:
  "\<exists>r. technical_rule kws e a = Inr r \<and> 0 \<le> fst r \<and> fst r \<le> 10"
proof -
  obtain kr where "keyword_stage kws a = Inr kr" using keyword_stage_total by blast
  then have "technical_rule kws e a = Inr (length_stage e a kr)" by (simp add: technical_rule_def)
  then show ?thesis using length_stage_range by blast
qed

lemma even_min: "even (a::int) \<Longrightarrow> even b \<Longrightarrow> even (min a b)"
  by (simp add: min_def)

lemma behavioral_rule_range:
  "\<exists>r. behavioral_rule a = Inr r \<and> 0 \<le> fst r \<and> fst r \<le> 10 \<and> even (fst r)"
  by (simp add: behavioral_rule_def Let_def even_min)

lemma scenario_rule_range:
  "\<exists>r. scenario_rule kws a = Inr r \<and> 0 \<le> fst r \<and> fst r \<le> 9"
proof (cases "kws = []")
  case True
  then show ?thesis by (simp add: scenario_rule_def Let_def float_mul_def fl_zero py_round_def)
next
  case False
  then have "map lower kws \<noteq> []" by simp
  from coverage_range [OF this, of "lower a"] obtain c
    where div: "py_truediv (int (count_hits (map lower kws) (lower a) 0)) (int (length kws)) = Inr c"
      and "0 \<le> c" and "c \<le> 1" by auto
  then have "of_int 0 \<le> float_mul c 7" and "float_mul c 7 \<le> of_int 7"
    by (simp_all only: scaled_range)
  then have "0 \<le> py_round (float_mul c 7) \<and> py_round (float_mul c 7) \<le> 7"
    by (rule py_round_range)
  with False div show ?thesis by (simp add: scenario_rule_def Let_def)
qed

lemma type_rule_cases:
  "type_rule q a =
     (if dict_get (q_type q) ''technical'' = ''technical''
      then technical_rule (dict_get (q_keywords q) []) (dict_get (q_explanation q) []) a
      else if dict_get (q_type q) ''technical'' = ''behavioral'' then behavioral_rule a
      else scenario_rule (dict_get (q_keywords q) []) a)"
  by (simp add: type_rule_def Let_def)

lemma type_rule_range: "\<exists>r. type_rule q a = Inr r \<and> 0 \<le> fst r \<and> fst r \<le> 10"
proof -
  have "\<exists>r. scenario_rule (dict_get (q_keywords q) []) a = Inr r \<and> 0 \<le> fst r \<and> fst r \<le> 10"
    using scenario_rule_range [of "dict_get (q_keywords q) []" a] by force
  moreover have "\<exists>r. behavioral_rule a = Inr r \<and> 0 \<le> fst r \<and> fst r \<le> 10"
    using behavioral_rule_range [of a] by blast
  ultimately show ?thesis
    unfolding type_rule_cases using technical_rule_range by presburger
qed

lemma evaluate_answer_of_rule:
  assumes "a \<noteq> []" and "type_rule q a = Inr r"
  shows "\<exists>ev. evaluate_answer q a = Inr ev \<and> score ev = fst r
    \<and> reason ev = ''Score: '' @ str_int (fst r) @ ''/10. '' @ fst (snd r)"
  using assms by (cases r) (simp add: evaluate_answer_def)

lemma evaluate_answer_empty:
  "evaluate_answer q [] = Inr \<lparr>score = 0, reason = ''No answer provided.'', strengths = [],
     weaknesses = [''No response.''],
     tips = [''Try to answer the question; use STAR for behavioral answers or outline steps for technical ones.'']\<rparr>"
  by (simp add: evaluate_answer_def)

subsection \<open>The claims\<close>

text \<open>C1: for every question and every answer the evaluator returns a result, and its score is an integer between 0 and 10.\<close>

theorem score_in_range: "\<exists>r. evaluate_answer q a = Inr r \<and> 0 \<le> score r \<and> score r \<le> 10"
proof (cases "a = []")
  case True
  then show ?thesis by (simp add: evaluate_answer_empty)
next
  case False
  obtain r where "type_rule q a = Inr r" and "0 \<le> fst r" and "fst r \<le> 10"
    using type_rule_range by blast
  with False show ?thesis using evaluate_answer_of_rule [of a q r] by auto
qed

text \<open>An instance of the theorem above.\<close>

theorem score_in_range_witness:
  "\<exists>r. evaluate_answer cia_question ''Confidentiality, integrity and availability'' = Inr r
     \<and> 0 \<le> score r \<and> score r \<le> 10"
  by (rule score_in_range)

text \<open>C2, as amended: for every question, of any type, the empty answer yields score 0, the reason "No answer provided.", no strengths, one weakness and one tip; the guard comes before every rule of the type. (Only the empty string is caught: an answer of blanks is scored by the rule of the type.)\<close>

theorem empty_answer_result:
  "evaluate_answer q [] = Inr \<lparr>score = 0, reason = ''No answer provided.'', strengths = [],
     weaknesses = [''No response.''],
     tips = [''Try to answer the question; use STAR for behavioral answers or outline steps for technical ones.'']\<rparr>"
  by (rule evaluate_answer_empty)

text \<open>C2, as stated, fails on an answer of three blanks: the guard of line 58 tests the string itself, which is not empty, so the technical rule scores it: the reason is not "No answer provided." and the result differs from that of the empty answer.\<close>

theorem whitespace_answer_counterexample:
  "evaluate_answer cia_question ''   '' =
     Inr \<lparr>score = 0, reason = ''Score: 0/10. Keyword coverage: 0/3'', strengths = [],
          weaknesses = [''Missed some important concepts'',
                        ''Answer was short; expand with steps or examples''],
          tips = [''Make sure to mention the core terms and explain how they fit together. Consider a short definition followed by an example.'',
                  ''Review the key concept: CIA triad...'']\<rparr>
   \<and> evaluate_answer cia_question ''   '' \<noteq> evaluate_answer cia_question []"
  by code_simp

text \<open>C3, as amended: for every question and every non-empty answer, the reason is "Score: {score}/10. " followed by the reasoning of the rule of the type.\<close>

theorem reason_prefix:
  assumes "a \<noteq> []"
  shows "\<exists>r b. evaluate_answer q a = Inr r \<and> type_rule q a = Inr b
    \<and> reason r = ''Score: '' @ str_int (score r) @ ''/10. '' @ fst (snd b)"
proof -
  obtain b where b: "type_rule q a = Inr b" using type_rule_range by blast
  from evaluate_answer_of_rule [OF assms b] obtain r where "evaluate_answer q a = Inr r"
    and "score r = fst b" and "reason r = ''Score: '' @ str_int (fst b) @ ''/10. '' @ fst (snd b)"
    by blast
  with b show ?thesis by simp
qed

text \<open>An instance of the theorem above.\<close>

theorem reason_prefix_witness:
  "''Confidentiality'' \<noteq> [] \<and> (\<exists>r b. evaluate_answer cia_question ''Confidentiality'' = Inr r
     \<and> type_rule cia_question ''Confidentiality'' = Inr b
     \<and> reason r = ''Score: '' @ str_int (score r) @ ''/10. '' @ fst (snd b))"
  using reason_prefix [of "''Confidentiality''" cia_question] by simp

text \<open>C3, as stated, fails on the empty answer: the early return of line 59 gives the reason "No answer provided.", which does not begin with "Score: 0/10. ".\<close>

theorem empty_answer_reason_counterexample:
  "evaluate_answer behavioral_question [] =
     Inr \<lparr>score = 0, reason = ''No answer provided.'', strengths = [],
          weaknesses = [''No response.''],
          tips = [''Try to answer the question; use STAR for behavioral answers or outline steps for technical ones.'']\<rparr>
   \<and> \<not> prefix (''Score: '' @ str_int 0 @ ''/10. '') ''No answer provided.''"
  by code_simp

text \<open>C4: on the behavioural question and the answer "20%" the evaluator gives no bonus: the score is 0 and the strength "Included measurable results or metrics" is absent. The pattern closes with a word boundary, and there is none between a percent sign and the end of the text (or a blank).\<close>

theorem bare_percentage_no_bonus:
  "evaluate_answer behavioral_question ''20%'' =
     Inr \<lparr>score = 0, reason = ''Score: 0/10. Detected STAR-like keywords: 0'', strengths = [],
          weaknesses = [''Missing parts of the STAR structure (Situation, Task, Action, Result)''],
          tips = [''Use the STAR method: briefly state the Situation and Task, describe Actions you took, and end with the Result (preferably quantifiable).'']\<rparr>"
  by code_simp

text \<open>C5: the evaluator never raises: for every question record, also with absent keywords, explanation or type or with an unknown type, and for every answer, also empty or blank, it returns a result. The division of lines 78 and 133 is never reached with an empty keyword list.\<close>

theorem evaluate_answer_never_raises: "\<exists>r. evaluate_answer q a = Inr r"
proof (cases "a = []")
  case True
  then show ?thesis by (simp add: evaluate_answer_empty)
next
  case False
  obtain b where "type_rule q a = Inr b" using type_rule_range by blast
  with False show ?thesis using evaluate_answer_of_rule [of a q b] by blast
qed

text \<open>An instance of the theorem above.\<close>

theorem evaluate_answer_never_raises_witness: "\<exists>r. evaluate_answer bare_question ''   '' = Inr r"
  by (rule evaluate_answer_never_raises)

text \<open>C6: the end-to-end scenario. On the CIA question the answer "Confidentiality, integrity and availability" scores 7, with the reason "Score: 7/10. Keyword coverage: 3/3", the weakness "Answer was short; expand with steps or examples" and the strength "Covered most key concepts".\<close>

theorem cia_example:
  "evaluate_answer cia_question ''Confidentiality, integrity and availability'' =
     Inr \<lparr>score = 7, reason = ''Score: 7/10. Keyword coverage: 3/3'',
          strengths = [''Covered most key concepts'',
                       ''Decent answer; with room to add more specifics or examples''],
          weaknesses = [''Answer was short; expand with steps or examples''],
          tips = []\<rparr>"
  by code_simp

text \<open>C8: the keyword score of the technical rule, the score that lines 72 to 79 compute
  for a non-empty keyword list of n entries, is round((m / n) * 8) for the number m of
  matched keywords, and it does not decrease when m grows: when one answer matches m1
  keywords and another matches m2 with m1 <= m2 (and m2 <= n, which always holds), the
  keyword score of the first is at most that of the second.\<close>

theorem keyword_score_monotone:
  assumes "kws \<noteq> []"
    and "count_hits (map lower kws) (lower a1) 0 = m1"
    and "count_hits (map lower kws) (lower a2) 0 = m2"
    and "m1 \<le> m2"
  shows "m2 \<le> length kws \<and>
    (\<exists>c1 c2 r1 r2.
       py_truediv (int m1) (int (length kws)) = Inr c1
       \<and> py_truediv (int m2) (int (length kws)) = Inr c2
       \<and> keyword_stage kws a1 = Inr r1 \<and> fst r1 = py_round (float_mul c1 8)
       \<and> keyword_stage kws a2 = Inr r2 \<and> fst r2 = py_round (float_mul c2 8)
       \<and> fst r1 \<le> fst r2)"
proof -
  let ?n = "length kws"
  let ?c1 = "fl (of_int (int m1) / of_int (int ?n))"
  let ?c2 = "fl (of_int (int m2) / of_int (int ?n))"
  have n: "int ?n \<noteq> 0" using assms(1) by simp
  have m2: "m2 \<le> ?n"
    using count_hits_upper [of "map lower kws" "lower a2" 0] assms(3) by simp
  have d1: "py_truediv (int m1) (int ?n) = Inr ?c1" using n by (simp add: py_truediv_def)
  have d2: "py_truediv (int m2) (int ?n) = Inr ?c2" using n by (simp add: py_truediv_def)
  obtain r1 where r1: "keyword_stage kws a1 = Inr r1" "fst r1 = py_round (float_mul ?c1 8)"
    using assms(1,2) d1 by (simp add: keyword_stage_def Let_def)
  obtain r2 where r2: "keyword_stage kws a2 = Inr r2" "fst r2 = py_round (float_mul ?c2 8)"
    using assms(1,3) d2 by (simp add: keyword_stage_def Let_def)
  have "(0::rat) \<le> of_int (int m1) / of_int (int ?n)" by simp
  moreover have "(of_int (int m1) / of_int (int ?n) :: rat) \<le> of_int (int m2) / of_int (int ?n)"
    using assms(4) by (simp add: divide_right_mono)
  ultimately have "py_round (float_mul ?c1 8) \<le> py_round (float_mul ?c2 8)"
    by (rule scaled_round_mono)
  then have "fst r1 \<le> fst r2" by (simp only: r1(2) r2(2))
  with m2 d1 d2 r1 r2 show ?thesis by blast
qed

text \<open>An instance of the theorem above: on the CIA keywords, an answer that names one
  keyword and an answer that names two.\<close>

theorem keyword_score_monotone_witness:
  "[''confidentiality'', ''integrity'', ''availability''] \<noteq> []
   \<and> count_hits (map lower [''confidentiality'', ''integrity'', ''availability''])
        (lower ''Integrity'') 0 = 1
   \<and> count_hits (map lower [''confidentiality'', ''integrity'', ''availability''])
        (lower ''Integrity and availability'') 0 = 2
   \<and> (1::nat) \<le> 2
   \<and> (2 \<le> length [''confidentiality'', ''integrity'', ''availability''] \<and>
    (\<exists>c1 c2 r1 r2.
       py_truediv (int 1) (int (length [''confidentiality'', ''integrity'', ''availability''])) = Inr c1
       \<and> py_truediv (int 2) (int (length [''confidentiality'', ''integrity'', ''availability''])) = Inr c2
       \<and> keyword_stage [''confidentiality'', ''integrity'', ''availability''] ''Integrity'' = Inr r1
       \<and> fst r1 = py_round (float_mul c1 8)
       \<and> keyword_stage [''confidentiality'', ''integrity'', ''availability'']
            ''Integrity and availability'' = Inr r2
       \<and> fst r2 = py_round (float_mul c2 8)
       \<and> fst r1 \<le> fst r2))"
proof -
  have h1: "[''confidentiality'', ''integrity'', ''availability''] \<noteq> []" by simp
  have h2: "count_hits (map lower [''confidentiality'', ''integrity'', ''availability''])
      (lower ''Integrity'') 0 = 1" by code_simp
  have h3: "count_hits (map lower [''confidentiality'', ''integrity'', ''availability''])
      (lower ''Integrity and availability'') 0 = 2" by code_simp
  have h4: "(1::nat) \<le> 2" by simp
  from keyword_score_monotone [OF h1 h2 h3 h4] h1 h2 h3 h4 show ?thesis by blast
qed

text \<open>C9: for a question whose type is neither "technical" nor "behavioral" the score is at most 9, for every answer.\<close>

theorem scenario_score_at_most_9:
  assumes "q_type q = Some t" and "t \<noteq> ''technical''" and "t \<noteq> ''behavioral''"
  shows "\<exists>r. evaluate_answer q a = Inr r \<and> score r \<le> 9"
proof (cases "a = []")
  case True
  then show ?thesis by (simp add: evaluate_answer_empty)
next
  case False
  have "type_rule q a = scenario_rule (dict_get (q_keywords q) []) a"
    using assms by (simp add: type_rule_cases dict_get_def)
  then obtain b where "type_rule q a = Inr b" and "fst b \<le> 9"
    using scenario_rule_range [of "dict_get (q_keywords q) []" a] by auto
  with False show ?thesis using evaluate_answer_of_rule [of a q b] by auto
qed

text \<open>An instance of the theorem above.\<close>

theorem scenario_score_at_most_9_witness:
  "q_type scenario_question = Some ''scenario'' \<and> ''scenario'' \<noteq> ''technical''
   \<and> ''scenario'' \<noteq> ''behavioral''
   \<and> (\<exists>r. evaluate_answer scenario_question ''First isolate the host, then restore from backup'' = Inr r
        \<and> score r \<le> 9)"
  using scenario_score_at_most_9 [of scenario_question "''scenario''"
      "''First isolate the host, then restore from backup''"]
  by (simp add: scenario_question_def)

text \<open>C10: for a behavioural question and a non-empty answer the score is even.\<close>

theorem behavioral_score_even:
  assumes "q_type q = Some ''behavioral''" and "a \<noteq> []"
  shows "\<exists>r. evaluate_answer q a = Inr r \<and> even (score r)"
proof -
  have "type_rule q a = behavioral_rule a"
    using assms(1) by (simp add: type_rule_cases dict_get_def)
  then obtain b where "type_rule q a = Inr b" and "even (fst b)"
    using behavioral_rule_range [of a] by auto
  with assms(2) show ?thesis using evaluate_answer_of_rule [of a q b] by auto
qed

text \<open>An instance of the theorem above.\<close>

theorem behavioral_score_even_witness:
  "q_type behavioral_question = Some ''behavioral'' \<and> ''reduced costs by 20%'' \<noteq> []
   \<and> (\<exists>r. evaluate_answer behavioral_question ''reduced costs by 20%'' = Inr r \<and> even (score r))"
  using behavioral_score_even [of behavioral_question "''reduced costs by 20%''"]
  by (simp add: behavioral_question_def)

end
